theory Spec2Isabelle
  imports Main
begin

text \<open>
  The Discourse service of tc-message-service: one function per forum action, each
  sending one HTTP request through a shared axios client.  The theory embeds the module
  (the requests it builds, the lazily created client, the logging on success and on
  failure) and proves what its requests carry: the acting user (\<open>api_username\<close>), the
  encoded bodies and query strings, and how failures reach the caller.
\<close>

section \<open>JavaScript values used by the Discourse service\<close>

text \<open>
  Strings are lists of code units; the model covers the code units 0..255, which is
  what \<open>char\<close> holds.  Identifiers (topic, post and user ids) are JavaScript numbers
  holding integers, so a template literal renders them in decimal.
\<close>

definition digit_char :: "nat \<Rightarrow> char" where
  "digit_char d = char_of (48 + d)"

fun nat_toString :: "nat \<Rightarrow> string" where
  "nat_toString n =
     (if n < 10 then [digit_char n] else nat_toString (n div 10) @ [digit_char (n mod 10)])"

declare nat_toString.simps [simp del]

definition toString :: "int \<Rightarrow> string" where
  "toString i = (if i < 0 then CHR ''-'' # nat_toString (nat (- i)) else nat_toString (nat i))"

text \<open>\<open>Array.prototype.join\<close> and \<open>String.prototype.split\<close> with a one-character separator.\<close>

fun js_join :: "string \<Rightarrow> string list \<Rightarrow> string" where
  "js_join sep [] = []"
| "js_join sep [x] = x"
| "js_join sep (x # y # ys) = x @ sep @ js_join sep (y # ys)"

fun split_on :: "char \<Rightarrow> string \<Rightarrow> string list" where
  "split_on c [] = [[]]"
| "split_on c (x # xs) =
     (if x = c then [] # split_on c xs
      else (case split_on c xs of w # ws \<Rightarrow> (x # w) # ws | [] \<Rightarrow> [[x]]))"

subsection \<open>encodeURIComponent\<close>

text \<open>
  Letters, digits and \<open>- _ . ! ~ * ' ( )\<close> are kept; every other code unit is written
  as the percent-escaped bytes of its UTF-8 encoding (one byte below 128, two bytes for
  128..255), with upper-case hexadecimal digits.
\<close>

definition uri_unreserved :: "char \<Rightarrow> bool" where
  "uri_unreserved c =
     (let n = (of_char c :: nat) in
        (65 \<le> n \<and> n \<le> 90) \<or> (97 \<le> n \<and> n \<le> 122) \<or> (48 \<le> n \<and> n \<le> 57) \<or>
        n \<in> {45, 95, 46, 33, 126, 42, 39, 40, 41})"

definition hex_digit :: "nat \<Rightarrow> char" where
  "hex_digit n = (if n < 10 then char_of (48 + n) else char_of (55 + n))"

definition pct_byte :: "nat \<Rightarrow> string" where
  "pct_byte b = [CHR ''%'', hex_digit (b div 16), hex_digit (b mod 16)]"

definition encode_unit :: "char \<Rightarrow> string" where
  "encode_unit c =
     (let n = (of_char c :: nat) in
        if uri_unreserved c then [c]
        else if n < 128 then pct_byte n
        else pct_byte (192 + n div 64) @ pct_byte (128 + n mod 64))"

definition encodeURIComponent :: "string \<Rightarrow> string" where
  "encodeURIComponent s = concat (map encode_unit s)"

section \<open>The HTTP client\<close>

text \<open>
  The service hands every request to the axios client.  A request is the method, the URL
  as the service wrote it, the body and the per-call configuration; the client's defaults
  are kept apart in \<open>axios_client\<close>.
\<close>

datatype http_method = GET | POST | PUT | DELETE

datatype json =
    JUndefined
  | JNull
  | JBool bool
  | JNumber int
  | JString string
  | JObject "(string \<times> json) list"

datatype form_part =
    Field string string
  | FileStream string string string string
      \<comment> \<open>field name, path of the stream, \<open>filename\<close> option, \<open>contentType\<close> option\<close>

datatype body =
    NoBody
  | JsonBody json
  | TextBody string
  | FormDataBody string "form_part list"
      \<comment> \<open>boundary of the form, appended parts\<close>

record req_config =
  params :: "(string \<times> string) list"
  headers :: "(string \<times> string) list"

definition no_config :: req_config where
  "no_config = \<lparr>params = [], headers = []\<rparr>"

record request =
  req_method :: http_method
  url :: string
  data :: body
  config :: req_config

text \<open>
  The request methods of the client library (axios, not part of the repository).  The
  library declares \<open>get\<close> and \<open>delete\<close> as \<open>(url, config)\<close>, and \<open>post\<close> and \<open>put\<close>
  as \<open>(url, data, config)\<close>.  The service calls \<open>delete\<close> with three arguments,
  \<open>delete(url, {}, {params: ...})\<close>: the call binds the first two, so the empty object
  is the configuration and the third argument is never read.
\<close>

definition axios_get :: "string \<Rightarrow> req_config \<Rightarrow> request" where
  "axios_get u c = \<lparr>req_method = GET, url = u, data = NoBody, config = c\<rparr>"

definition axios_delete :: "string \<Rightarrow> req_config \<Rightarrow> req_config \<Rightarrow> request" where
  "axios_delete u c unread = \<lparr>req_method = DELETE, url = u, data = NoBody, config = c\<rparr>"

definition axios_post :: "string \<Rightarrow> body \<Rightarrow> req_config \<Rightarrow> request" where
  "axios_post u d c = \<lparr>req_method = POST, url = u, data = d, config = c\<rparr>"

definition axios_put :: "string \<Rightarrow> body \<Rightarrow> req_config \<Rightarrow> request" where
  "axios_put u d c = \<lparr>req_method = PUT, url = u, data = d, config = c\<rparr>"

text \<open>
  The axios export is one object for the whole process: its defaults and the response
  interceptors registered on it.  A registered interceptor pair is the pair of functions
  \<open>getClient\<close> passes to \<open>interceptors.response.use\<close>; the two functions differ from
  one registration to the next only in the logger they write to, so a pair is recorded as
  that logger.  \<open>pristine_axios\<close> is the export as the module loads it.
\<close>

record axios_client =
  baseURL :: "string option"
  default_params :: "(string \<times> string) list"
  response_interceptors :: "nat list"
      \<comment> \<open>the registered interceptor pairs, in the order of registration\<close>

definition pristine_axios :: axios_client where
  "pristine_axios = \<lparr>baseURL = None, default_params = [], response_interceptors = []\<rparr>"

text \<open>
  Modelled from the spec: the shared client injects its default query parameters (API key
  and system username) on every call, and a call may override the acting username through
  its own query parameters.  So the parameters of a call are the defaults, each overridden
  by the per-call parameter of the same key, followed by the per-call parameters with new
  keys.
\<close>

definition merge_params ::
  "(string \<times> string) list \<Rightarrow> (string \<times> string) list \<Rightarrow> (string \<times> string) list" where
  "merge_params d p =
     map (\<lambda>(k, v). (k, case map_of p k of Some v' \<Rightarrow> v' | None \<Rightarrow> v)) d @
     filter (\<lambda>(k, v). map_of d k = None) p"

text \<open>
  Reading a request: the fields of a form-encoded string, the query string a URL already
  carries (what follows the first \<open>?\<close>), and the acting-user entries of a call in the
  order they go out, first those written into the URL, then the \<open>api_username\<close> query
  parameter.  Keys and values are compared as written, without percent-decoding.
\<close>

definition key_value :: "string \<Rightarrow> string \<times> string" where
  "key_value s =
     (takeWhile (\<lambda>x. x \<noteq> CHR ''='') s, drop 1 (dropWhile (\<lambda>x. x \<noteq> CHR ''='') s))"

definition form_fields :: "string \<Rightarrow> (string \<times> string) list" where
  "form_fields s = map key_value (split_on CHR ''&'' s)"

definition url_query :: "string \<Rightarrow> (string \<times> string) list" where
  "url_query u =
     (case dropWhile (\<lambda>x. x \<noteq> CHR ''?'') u of
        [] \<Rightarrow> []
      | q # rest \<Rightarrow> form_fields rest)"

definition values_of :: "string \<Rightarrow> (string \<times> string) list \<Rightarrow> string list" where
  "values_of k kvs = map snd (filter (\<lambda>kv. fst kv = k) kvs)"

definition sent_api_usernames :: "axios_client \<Rightarrow> request \<Rightarrow> string list" where
  "sent_api_usernames cl r =
     values_of ''api_username''
       (url_query (url r) @ merge_params (default_params cl) (params (config r)))"

section \<open>The Discourse service\<close>

subsection \<open>What the service is given\<close>

record config =
  discourseURL :: string
  discourseApiKey :: string
  discourseSystemUsername :: string

datatype upstream_reply = Reply nat string | NoReply

text \<open>
  \<open>logger\<close> is the logger the module is instantiated with (\<open>module.exports = (logger) =>\<close>),
  named by a number; \<open>isDiscourseAdmin\<close> is the helper of the \<open>util\<close> module; \<open>upstream\<close>
  is the forum answering a call (a status and a payload, or no answer at all);
  \<open>getBoundary\<close> is the boundary the form-data library generates.  All are parameters of
  the model.
\<close>

record deps =
  conf :: config
  logger :: nat
  isDiscourseAdmin :: "string \<Rightarrow> bool"
  upstream :: "axios_client \<Rightarrow> request \<Rightarrow> upstream_reply"
  getBoundary :: string

definition DISCOURSE_SYSTEM_USERNAME :: "deps \<Rightarrow> string" where
  "DISCOURSE_SYSTEM_USERNAME e = discourseSystemUsername (conf e)"

subsection \<open>Results, failures and the log\<close>

record response =
  status :: nat
  payload :: string

datatype http_failure = BadStatus nat string | NetworkError

datatype resolved = WholeResponse response | ResponseData string

datatype level = LDebug | LInfo | LError

text \<open>
  A log entry is a level with the message of the call (further arguments of the call are
  not rendered), or the failure object passed to \<open>logger.error\<close>.
\<close>

datatype log_entry = Log level string | LogFailure http_failure

fun is_error_entry :: "log_entry \<Rightarrow> bool" where
  "is_error_entry (Log l m) = (l = LError)"
| "is_error_entry (LogFailure f) = True"

text \<open>
  The state an operation runs in.  \<open>axios\<close> is the process-wide axios export, shared by
  every instance of the service and by anything else in the process; \<open>client\<close> is the
  variable of this instance, \<open>null\<close> or a reference to that export; \<open>log\<close> holds the
  entries written so far, each with the logger it went to; \<open>requests\<close> holds the requests
  that went out to the forum.
\<close>

datatype object_ref = Axios_export

record service =
  axios :: axios_client
  client :: "object_ref option"
  log :: "(nat \<times> log_entry) list"
  requests :: "request list"

definition initial_service :: service where
  "initial_service = \<lparr>axios = pristine_axios, client = None, log = [], requests = []\<rparr>"

text \<open>
  A further instance of the service in the same process: the module function called
  again has a variable \<open>client\<close> of its own, and sees the same axios export and logs.
\<close>

definition new_instance :: "service \<Rightarrow> service" where
  "new_instance s = s\<lparr>client := None\<rparr>"

definition write_log :: "nat \<Rightarrow> log_entry \<Rightarrow> service \<Rightarrow> service" where
  "write_log lg x s = s\<lparr>log := log s @ [(lg, x)]\<rparr>"

subsection \<open>getClient\<close>

text \<open>
  \<open>getClient\<close> returns the export when \<open>client\<close> is set.  Otherwise it points \<open>client\<close>
  at the export, overwrites the export's base URL and default parameters, registers one
  more interceptor pair on it, and returns it.
\<close>

definition getClient :: "deps \<Rightarrow> service \<Rightarrow> axios_client \<times> service" where
  "getClient e s =
     (case client s of
        Some ref \<Rightarrow> (axios s, s)
      | None \<Rightarrow>
          (let a = (axios s)
                 \<lparr>baseURL := Some (discourseURL (conf e)),
                  default_params :=
                    [(''api_key'', discourseApiKey (conf e)),
                     (''api_username'', DISCOURSE_SYSTEM_USERNAME e)],
                  response_interceptors := response_interceptors (axios s) @ [logger e]\<rparr>
           in (a, s\<lparr>axios := a, client := Some Axios_export\<rparr>)))"

text \<open>
  Modelled from the spec: a response with a status outside 200..299 is an upstream
  failure, and no response at all is a network failure; both reject the promise of the
  call.  A request of the client goes out to the forum once.
\<close>

definition settle :: "upstream_reply \<Rightarrow> http_failure + response" where
  "settle rep =
     (case rep of
        Reply st d \<Rightarrow>
          if 200 \<le> st \<and> st < 300 then Inr \<lparr>status = st, payload = d\<rparr>
          else Inl (BadStatus st d)
      | NoReply \<Rightarrow> Inl NetworkError)"

definition axios_request ::
  "(axios_client \<Rightarrow> request \<Rightarrow> upstream_reply) \<Rightarrow> axios_client \<Rightarrow> request \<Rightarrow> service
     \<Rightarrow> (http_failure + response) \<times> service" where
  "axios_request up cl r s = (settle (up cl r), s\<lparr>requests := requests s @ [r]\<rparr>)"

text \<open>
  The response interceptor pair registered by \<open>getClient\<close>, writing to the logger of the
  instance that registered it, and a call as every operation makes it: \<open>getClient()\<close>,
  then the request, then the interceptor pairs registered on the client, in order.
  \<open>whole\<close> is the promise of an operation that returns the response as it is.
\<close>

definition response_interceptor ::
  "nat \<Rightarrow> http_failure + response \<Rightarrow> service \<Rightarrow> (http_failure + response) \<times> service" where
  "response_interceptor lg r s =
     (case r of
        Inr res \<Rightarrow> (Inr res, write_log lg (Log LInfo ''SUCCESS'') s)
      | Inl err \<Rightarrow> (Inl err, write_log lg (Log LError ''Discourse call failed: '') s))"

primrec run_interceptors ::
  "nat list \<Rightarrow> http_failure + response \<Rightarrow> service
     \<Rightarrow> (http_failure + response) \<times> service" where
  "run_interceptors [] r s = (r, s)"
| "run_interceptors (lg # lgs) r s =
     (case response_interceptor lg r s of (r', s') \<Rightarrow> run_interceptors lgs r' s')"

definition send ::
  "deps \<Rightarrow> request \<Rightarrow> service \<Rightarrow> (http_failure + response) \<times> service" where
  "send e r s =
     (case getClient e s of
        (cl, s1) \<Rightarrow>
          (case axios_request (upstream e) cl r s1 of
             (res, s2) \<Rightarrow> run_interceptors (response_interceptors cl) res s2))"

definition whole ::
  "(http_failure + response) \<times> service \<Rightarrow> (http_failure + resolved) \<times> service" where
  "whole rs = (case rs of (r, s) \<Rightarrow> (map_sum id WholeResponse r, s))"

subsection \<open>The requests of the operations\<close>

text \<open>
  Each operation builds one request.  \<open>owner\<close>, \<open>invitee\<close> and \<open>responseTo\<close> may be
  left out by the caller (\<open>None\<close>); the other arguments have the types their
  documentation gives.
\<close>

record upload_file =
  path :: string
  originalname :: string
  mimetype :: string

definition getUser_req :: "string \<Rightarrow> request" where
  "getUser_req username =
     axios_get (''/users/'' @ username @ ''.json?api_username='' @ username) no_config"

definition createUser_req :: "string \<Rightarrow> int \<Rightarrow> string \<Rightarrow> string \<Rightarrow> json \<Rightarrow> request" where
  "createUser_req name userId handle email password =
     axios_post ''/users''
       (JsonBody (JObject
          [(''name'', JString name),
           (''username'', JNumber userId),
           (''email'', JString email),
           (''password'', password),
           (''active'', JBool True),
           (''user_fields'', JObject [(''1'', JString handle)])]))
       no_config"

definition createPrivatePost_req ::
  "deps \<Rightarrow> string \<Rightarrow> string \<Rightarrow> string \<Rightarrow> string option \<Rightarrow> request" where
  "createPrivatePost_req e title post users owner =
     axios_post ''/posts''
       (JsonBody (JObject
          [(''archetype'', JString ''private_message''),
           (''target_usernames'', JString users),
           (''title'', JString title),
           (''raw'', JString post)]))
       \<lparr>params =
          [(''api_username'',
            (case owner of
               Some w \<Rightarrow>
                 if w \<noteq> [] \<and> \<not> isDiscourseAdmin e w then w else DISCOURSE_SYSTEM_USERNAME e
             | None \<Rightarrow> DISCOURSE_SYSTEM_USERNAME e))],
        headers = []\<rparr>"

definition getTopic_req :: "deps \<Rightarrow> int \<Rightarrow> string \<Rightarrow> request" where
  "getTopic_req e topicId username =
     axios_get (''/t/'' @ toString topicId @ ''.json?include_raw=1'')
       \<lparr>params =
          [(''api_username'',
            if isDiscourseAdmin e username then DISCOURSE_SYSTEM_USERNAME e else username)],
        headers = []\<rparr>"

definition updateTopic_req :: "deps \<Rightarrow> string \<Rightarrow> int \<Rightarrow> string \<Rightarrow> request" where
  "updateTopic_req e username topicId title =
     axios_put (''/t/'' @ toString topicId @ ''.json'')
       (JsonBody (JObject [(''topic_id'', JNumber topicId), (''title'', JString title)]))
       \<lparr>params =
          [(''api_username'',
            if isDiscourseAdmin e username then DISCOURSE_SYSTEM_USERNAME e else username)],
        headers = []\<rparr>"

definition deleteTopic_req :: "deps \<Rightarrow> string \<Rightarrow> int \<Rightarrow> request" where
  "deleteTopic_req e username topicId =
     axios_delete (''/t/'' @ toString topicId @ ''.json'') no_config
       \<lparr>params =
          [(''api_username'',
            if isDiscourseAdmin e username then DISCOURSE_SYSTEM_USERNAME e else username)],
        headers = []\<rparr>"

definition grantAccess_req :: "string \<Rightarrow> int \<Rightarrow> string option \<Rightarrow> request" where
  "grantAccess_req userName topicId invitee =
     axios_post (''/t/'' @ toString topicId @ ''/invite'')
       (JsonBody (JObject [(''user'', JString userName)]))
       \<lparr>params =
          [(''api_username'', (case invitee of None \<Rightarrow> ''system'' | Some i \<Rightarrow> i))],
        headers = []\<rparr>"

definition createPost_data :: "string \<Rightarrow> int \<Rightarrow> int option \<Rightarrow> string" where
  "createPost_data post discourseTopicId responseTo =
     (let data = ''topic_id='' @ toString discourseTopicId @ ''&raw='' @ encodeURIComponent post
      in case responseTo of
           Some r \<Rightarrow> if r \<noteq> 0 then data @ ''&reply_to_post_number='' @ toString r else data
         | None \<Rightarrow> data)"

definition createPost_req :: "deps \<Rightarrow> string \<Rightarrow> string \<Rightarrow> int \<Rightarrow> int option \<Rightarrow> request" where
  "createPost_req e username post discourseTopicId responseTo =
     axios_post ''/posts'' (TextBody (createPost_data post discourseTopicId responseTo))
       \<lparr>params =
          [(''api_username'',
            if isDiscourseAdmin e username then DISCOURSE_SYSTEM_USERNAME e else username)],
        headers = []\<rparr>"

definition getPost_req :: "deps \<Rightarrow> string \<Rightarrow> int \<Rightarrow> request" where
  "getPost_req e username postId =
     axios_get (''/posts/'' @ toString postId @ ''.json?'')
       \<lparr>params =
          [(''api_username'',
            if isDiscourseAdmin e username then DISCOURSE_SYSTEM_USERNAME e else username)],
        headers = []\<rparr>"

text \<open>
  The loop of \<open>getPosts\<close> carries the filter built so far and the separator to put in
  front of the next entry.
\<close>

definition getPosts_each :: "int \<Rightarrow> string \<times> string \<Rightarrow> string \<times> string" where
  "getPosts_each postId st =
     (case st of
        (postIdsFilter, separator) \<Rightarrow>
          (postIdsFilter @ separator @ encodeURIComponent ''post_ids[]'' @ ''='' @ toString postId,
           ''&''))"

definition getPosts_filter :: "int list \<Rightarrow> string" where
  "getPosts_filter postIds = fst (fold getPosts_each postIds ([], []))"

definition getPosts_req :: "deps \<Rightarrow> string \<Rightarrow> int \<Rightarrow> int list \<Rightarrow> request" where
  "getPosts_req e username topicId postIds =
     axios_get
       (''/t/'' @ toString topicId @ ''/posts.json?include_raw=1&'' @ getPosts_filter postIds)
       \<lparr>params =
          [(''api_username'',
            if isDiscourseAdmin e username then DISCOURSE_SYSTEM_USERNAME e else username)],
        headers = []\<rparr>"

definition updatePost_req :: "deps \<Rightarrow> string \<Rightarrow> int \<Rightarrow> string \<Rightarrow> request" where
  "updatePost_req e username postId body =
     axios_put (''/posts/'' @ toString postId @ ''.json'')
       (JsonBody (JObject [(''post'', JObject [(''raw'', JString body)])]))
       \<lparr>params =
          [(''api_username'',
            if isDiscourseAdmin e username then DISCOURSE_SYSTEM_USERNAME e else username)],
        headers = []\<rparr>"

definition deletePost_req :: "deps \<Rightarrow> string \<Rightarrow> int \<Rightarrow> request" where
  "deletePost_req e username postId =
     axios_delete (''/posts/'' @ toString postId @ ''.json'') no_config
       \<lparr>params =
          [(''api_username'',
            if isDiscourseAdmin e username then DISCOURSE_SYSTEM_USERNAME e else username)],
        headers = []\<rparr>"

definition uploadImage_req :: "deps \<Rightarrow> string \<Rightarrow> upload_file \<Rightarrow> request" where
  "uploadImage_req e username file =
     axios_post ''/uploads.json''
       (FormDataBody (getBoundary e)
          [Field ''type'' ''composer'',
           Field ''synchronous'' ''true'',
           FileStream ''file'' (path file) (originalname file) (mimetype file)])
       \<lparr>params =
          [(''api_username'',
            if isDiscourseAdmin e username then DISCOURSE_SYSTEM_USERNAME e else username)],
        headers = [(''Content-Type'', ''multipart/form-data; boundary='' @ getBoundary e)]\<rparr>"

definition markTopicPostsRead_parts :: "int \<Rightarrow> int list \<Rightarrow> string list" where
  "markTopicPostsRead_parts topicId postIds =
     fold (\<lambda>postId parts.
             parts @ [encodeURIComponent (''timings['' @ toString postId @ '']'') @ ''=1000''])
       postIds
       [''topic_id='' @ toString topicId, ''topic_time='' @ toString topicId]"

definition markTopicPostsRead_req :: "string \<Rightarrow> int \<Rightarrow> int list \<Rightarrow> request" where
  "markTopicPostsRead_req username topicId postIds =
     axios_post ''/topics/timings.json''
       (TextBody (js_join ''&'' (markTopicPostsRead_parts topicId postIds)))
       \<lparr>params = [(''api_username'', username)], headers = []\<rparr>"

definition changeTrustLevel_req :: "int \<Rightarrow> int \<Rightarrow> request" where
  "changeTrustLevel_req userId lvl =
     axios_put (''/admin/users/'' @ toString userId @ ''/trust_level'')
       (JsonBody (JObject [(''user_id'', JNumber userId), (''level'', JNumber lvl)]))
       no_config"

definition removeAccess_req :: "string \<Rightarrow> int \<Rightarrow> request" where
  "removeAccess_req userName topicId =
     axios_put (''/t/'' @ toString topicId @ ''/remove-allowed-user'')
       (JsonBody (JObject [(''username'', JString userName)]))
       \<lparr>params = [(''api_username'', ''system'')], headers = []\<rparr>"

subsection \<open>The operations\<close>

text \<open>
  An operation takes the state and returns the settled promise with the new state:
  \<open>Inl\<close> is a rejection, \<open>Inr\<close> a resolution.
\<close>

type_synonym promise = "(http_failure + resolved) \<times> service"

definition getUser :: "deps \<Rightarrow> string \<Rightarrow> service \<Rightarrow> promise" where
  "getUser e username s =
     (case send e (getUser_req username) s of
        (r, s') \<Rightarrow> (map_sum id (\<lambda>res. ResponseData (payload res)) r, s'))"

definition createUser ::
  "deps \<Rightarrow> string \<Rightarrow> int \<Rightarrow> string \<Rightarrow> string \<Rightarrow> json \<Rightarrow> service \<Rightarrow> promise" where
  "createUser e name userId handle email password s =
     whole (send e (createUser_req name userId handle email password)
              (write_log (logger e) (Log LDebug ''Creating user in discourse:'') s))"

definition createPrivatePost ::
  "deps \<Rightarrow> string \<Rightarrow> string \<Rightarrow> string \<Rightarrow> string option \<Rightarrow> service \<Rightarrow> promise" where
  "createPrivatePost e title post users owner s =
     (case send e (createPrivatePost_req e title post users owner) s of
        (Inr res, s') \<Rightarrow> (Inr (WholeResponse res), s')
      | (Inl err, s') \<Rightarrow>
          (Inl err,
           write_log (logger e) (LogFailure err)
             (write_log (logger e) (Log LError ''Error creating topic'') s')))"

definition getTopic :: "deps \<Rightarrow> int \<Rightarrow> string \<Rightarrow> service \<Rightarrow> promise" where
  "getTopic e topicId username s =
     (case send e (getTopic_req e topicId username)
             (write_log (logger e)
                (Log LDebug
                   (''Retrieving topic# '' @ toString topicId @ '' for user: '' @ username))
                s) of
        (r, s') \<Rightarrow> (map_sum id (\<lambda>res. ResponseData (payload res)) r, s'))"

definition updateTopic :: "deps \<Rightarrow> string \<Rightarrow> int \<Rightarrow> string \<Rightarrow> service \<Rightarrow> promise" where
  "updateTopic e username topicId title s =
     whole (send e (updateTopic_req e username topicId title)
              (write_log (logger e)
                 (Log LDebug (''Update topic# '' @ toString topicId @ '' for user: '' @ username))
                 s))"

definition deleteTopic :: "deps \<Rightarrow> string \<Rightarrow> int \<Rightarrow> service \<Rightarrow> promise" where
  "deleteTopic e username topicId s = whole (send e (deleteTopic_req e username topicId) s)"

definition grantAccess :: "deps \<Rightarrow> string \<Rightarrow> int \<Rightarrow> string option \<Rightarrow> service \<Rightarrow> promise" where
  "grantAccess e userName topicId invitee s =
     whole (send e (grantAccess_req userName topicId invitee) s)"

definition createPost ::
  "deps \<Rightarrow> string \<Rightarrow> string \<Rightarrow> int \<Rightarrow> int option \<Rightarrow> service \<Rightarrow> promise" where
  "createPost e username post discourseTopicId responseTo s =
     whole (send e (createPost_req e username post discourseTopicId responseTo) s)"

definition getPost :: "deps \<Rightarrow> string \<Rightarrow> int \<Rightarrow> service \<Rightarrow> promise" where
  "getPost e username postId s =
     whole (send e (getPost_req e username postId)
              (write_log (logger e) (Log LDebug ''Attempting to retrieve post'') s))"

definition getPosts :: "deps \<Rightarrow> string \<Rightarrow> int \<Rightarrow> int list \<Rightarrow> service \<Rightarrow> promise" where
  "getPosts e username topicId postIds s =
     whole (send e (getPosts_req e username topicId postIds)
              (write_log (logger e) (Log LDebug ''Attempting to retrieve posts'') s))"

definition updatePost :: "deps \<Rightarrow> string \<Rightarrow> int \<Rightarrow> string \<Rightarrow> service \<Rightarrow> promise" where
  "updatePost e username postId body s =
     whole (send e (updatePost_req e username postId body) s)"

definition deletePost :: "deps \<Rightarrow> string \<Rightarrow> int \<Rightarrow> service \<Rightarrow> promise" where
  "deletePost e username postId s = whole (send e (deletePost_req e username postId) s)"

definition uploadImage :: "deps \<Rightarrow> string \<Rightarrow> upload_file \<Rightarrow> service \<Rightarrow> promise" where
  "uploadImage e username file s = whole (send e (uploadImage_req e username file) s)"

definition markTopicPostsRead :: "deps \<Rightarrow> string \<Rightarrow> int \<Rightarrow> int list \<Rightarrow> service \<Rightarrow> promise" where
  "markTopicPostsRead e username topicId postIds s =
     whole (send e (markTopicPostsRead_req username topicId postIds) s)"

definition changeTrustLevel :: "deps \<Rightarrow> int \<Rightarrow> int \<Rightarrow> service \<Rightarrow> promise" where
  "changeTrustLevel e userId lvl s =
     whole (send e (changeTrustLevel_req userId lvl)
              (write_log (logger e) (Log LDebug ''Changing trust level of user in discourse:'') s))"

definition removeAccess :: "deps \<Rightarrow> string \<Rightarrow> int \<Rightarrow> service \<Rightarrow> promise" where
  "removeAccess e userName topicId s = whole (send e (removeAccess_req userName topicId) s)"

text \<open>The table of operations the module exports, as a type of calls.\<close>

datatype call =
    CreateUser string int string string json
  | GetUser string
  | ChangeTrustLevel int int
  | GrantAccess string int "string option"
  | RemoveAccess string int
  | GetTopic int string
  | UpdateTopic string int string
  | DeleteTopic string int
  | CreatePost string string int "int option"
  | UpdatePost string int string
  | DeletePost string int
  | UploadImage string upload_file
  | CreatePrivatePost string string string "string option"
  | GetPost string int
  | GetPosts string int "int list"
  | MarkTopicPostsRead string int "int list"

fun perform :: "deps \<Rightarrow> call \<Rightarrow> service \<Rightarrow> promise" where
  "perform e (CreateUser name userId handle email password) =
     createUser e name userId handle email password"
| "perform e (GetUser username) = getUser e username"
| "perform e (ChangeTrustLevel userId lvl) = changeTrustLevel e userId lvl"
| "perform e (GrantAccess userName topicId invitee) = grantAccess e userName topicId invitee"
| "perform e (RemoveAccess userName topicId) = removeAccess e userName topicId"
| "perform e (GetTopic topicId username) = getTopic e topicId username"
| "perform e (UpdateTopic username topicId title) = updateTopic e username topicId title"
| "perform e (DeleteTopic username topicId) = deleteTopic e username topicId"
| "perform e (CreatePost username post topicId responseTo) =
     createPost e username post topicId responseTo"
| "perform e (UpdatePost username postId body) = updatePost e username postId body"
| "perform e (DeletePost username postId) = deletePost e username postId"
| "perform e (UploadImage username file) = uploadImage e username file"
| "perform e (CreatePrivatePost title post users owner) =
     createPrivatePost e title post users owner"
| "perform e (GetPost username postId) = getPost e username postId"
| "perform e (GetPosts username topicId postIds) = getPosts e username topicId postIds"
| "perform e (MarkTopicPostsRead username topicId postIds) =
     markTopicPostsRead e username topicId postIds"

text \<open>The request each call builds.\<close>

fun request_of :: "deps \<Rightarrow> call \<Rightarrow> request" where
  "request_of e (CreateUser name userId handle email password) =
     createUser_req name userId handle email password"
| "request_of e (GetUser username) = getUser_req username"
| "request_of e (ChangeTrustLevel userId lvl) = changeTrustLevel_req userId lvl"
| "request_of e (GrantAccess userName topicId invitee) =
     grantAccess_req userName topicId invitee"
| "request_of e (RemoveAccess userName topicId) = removeAccess_req userName topicId"
| "request_of e (GetTopic topicId username) = getTopic_req e topicId username"
| "request_of e (UpdateTopic username topicId title) = updateTopic_req e username topicId title"
| "request_of e (DeleteTopic username topicId) = deleteTopic_req e username topicId"
| "request_of e (CreatePost username post topicId responseTo) =
     createPost_req e username post topicId responseTo"
| "request_of e (UpdatePost username postId body) = updatePost_req e username postId body"
| "request_of e (DeletePost username postId) = deletePost_req e username postId"
| "request_of e (UploadImage username file) = uploadImage_req e username file"
| "request_of e (CreatePrivatePost title post users owner) =
     createPrivatePost_req e title post users owner"
| "request_of e (GetPost username postId) = getPost_req e username postId"
| "request_of e (GetPosts username topicId postIds) = getPosts_req e username topicId postIds"
| "request_of e (MarkTopicPostsRead username topicId postIds) =
     markTopicPostsRead_req username topicId postIds"

text \<open>
  The client of a process in which this instance is the first to run \<open>getClient\<close>; the
  log entries and the requests an operation added; and the example environment used to
  evaluate the operations on concrete inputs.
\<close>

definition configured :: "deps \<Rightarrow> axios_client" where
  "configured e =
     \<lparr>baseURL = Some (discourseURL (conf e)),
      default_params =
        [(''api_key'', discourseApiKey (conf e)),
         (''api_username'', DISCOURSE_SYSTEM_USERNAME e)],
      response_interceptors = [logger e]\<rparr>"

definition added_log :: "service \<Rightarrow> service \<Rightarrow> (nat \<times> log_entry) list" where
  "added_log s s' = drop (length (log s)) (log s')"

definition added_requests :: "service \<Rightarrow> service \<Rightarrow> request list" where
  "added_requests s s' = drop (length (requests s)) (requests s')"

definition error_entries :: "(nat \<times> log_entry) list \<Rightarrow> (nat \<times> log_entry) list" where
  "error_entries xs = filter (\<lambda>x. is_error_entry (snd x)) xs"

definition example_admin :: "string \<Rightarrow> bool" where
  "example_admin u = (u = ''admin1'')"

definition example_upstream :: "axios_client \<Rightarrow> request \<Rightarrow> upstream_reply" where
  "example_upstream cl r = (if url r = ''/posts'' then Reply 500 ''error'' else Reply 200 ''ok'')"

definition example_deps :: "string \<Rightarrow> deps" where
  "example_deps sysname =
     \<lparr>conf = \<lparr>discourseURL = ''http://forum.local'', discourseApiKey = ''key'',
              discourseSystemUsername = sysname\<rparr>,
      logger = 1,
      isDiscourseAdmin = example_admin,
      upstream = example_upstream,
      getBoundary = ''boundary''\<rparr>"

definition json_field :: "string \<Rightarrow> body \<Rightarrow> json option" where
  "json_field k b = (case b of JsonBody (JObject fs) \<Rightarrow> map_of fs k | _ \<Rightarrow> None)"

text \<open>
  Vocabulary of the properties: a string is \<open>benign\<close> when it holds none of the
  characters that delimit a query string; \<open>post_ids_entry\<close> and \<open>timings_entry\<close> are the
  entries the specification names; \<open>body_text\<close> reads a body sent as text.
\<close>

definition benign :: "string \<Rightarrow> bool" where
  "benign s = (\<forall>c \<in> set s. c \<noteq> CHR ''?'' \<and> c \<noteq> CHR ''&'' \<and> c \<noteq> CHR ''='')"

definition post_ids_entry :: "int \<Rightarrow> string" where
  "post_ids_entry p = ''post_ids%5B%5D='' @ toString p"

definition timings_entry :: "int \<Rightarrow> string" where
  "timings_entry p = ''timings%5B'' @ toString p @ ''%5D=1000''"

definition body_text :: "body \<Rightarrow> string" where
  "body_text b = (case b of TextBody t \<Rightarrow> t | _ \<Rightarrow> [])"

text \<open>
  A run of calls, one after the other; the call that logs on its own failure; and the
  client a call goes through, which is what \<open>getClient\<close> returns at that moment.
\<close>

definition perform_all :: "deps \<Rightarrow> call list \<Rightarrow> service \<Rightarrow> service" where
  "perform_all e cs s = fold (\<lambda>c s'. snd (perform e c s')) cs s"

definition is_createPrivatePost :: "call \<Rightarrow> bool" where
  "is_createPrivatePost c =
     (case c of CreatePrivatePost title post users owner \<Rightarrow> True | _ \<Rightarrow> False)"

definition client_of :: "deps \<Rightarrow> service \<Rightarrow> axios_client" where
  "client_of e s = fst (getClient e s)"

text \<open>The entry one interceptor pair writes for a settled request.\<close>

definition interceptor_entry :: "http_failure + response \<Rightarrow> log_entry" where
  "interceptor_entry r =
     (case r of Inr res \<Rightarrow> Log LInfo ''SUCCESS'' | Inl err \<Rightarrow> Log LError ''Discourse call failed: '')"

section \<open>Properties\<close>

subsection \<open>Characters of rendered numbers and of encoded text\<close>

lemma of_char_digit_char: "d < 10 \<Longrightarrow> (of_char (digit_char d) :: nat) = 48 + d"
  by (simp add: digit_char_def)

lemma unreserved_digit_char: "d < 10 \<Longrightarrow> uri_unreserved (digit_char d)"
  by (simp add: uri_unreserved_def of_char_digit_char)

lemma unreserved_nat_toString: "c \<in> set (nat_toString n) \<Longrightarrow> uri_unreserved c"
proof (induction n rule: nat_toString.induct)
  case (1 n)
  show ?case
  proof (cases "n < 10")
    case True
    with "1.prems" have "c = digit_char n"
      by (subst (asm) nat_toString.simps) simp
    with True show ?thesis
      by (simp add: unreserved_digit_char)
  next
    case False
    with "1.prems" have "c \<in> set (nat_toString (n div 10)) \<or> c = digit_char (n mod 10)"
      by (subst (asm) nat_toString.simps) auto
    then show ?thesis
      using "1.IH" False by (auto simp: unreserved_digit_char)
  qed
qed

lemma unreserved_minus: "uri_unreserved CHR ''-''"
  by (simp add: uri_unreserved_def)

lemma unreserved_toString: "c \<in> set (toString i) \<Longrightarrow> uri_unreserved c"
  by (auto simp: toString_def unreserved_minus unreserved_nat_toString split: if_splits)

lemma unreserved_not_special:
  "uri_unreserved c \<Longrightarrow> c \<noteq> CHR ''?'' \<and> c \<noteq> CHR ''&'' \<and> c \<noteq> CHR ''='' \<and> c \<noteq> CHR ''%''"
  by (auto simp: uri_unreserved_def)

lemma benign_toString [simp]: "benign (toString i)"
  using unreserved_toString unreserved_not_special by (auto simp: benign_def)

lemma hex_digit_unreserved: "n < 16 \<Longrightarrow> uri_unreserved (hex_digit n)"
  by (auto simp: hex_digit_def uri_unreserved_def)

lemma benign_pct_byte: "b < 256 \<Longrightarrow> benign (pct_byte b)"
  using hex_digit_unreserved [of "b mod 16"] hex_digit_unreserved [of "b div 16"]
    unreserved_not_special [of "hex_digit (b mod 16)"] unreserved_not_special [of "hex_digit (b div 16)"]
  by (simp add: benign_def pct_byte_def less_mult_imp_div_less)

lemma of_char_less: "(of_char (c::char) :: nat) < 256"
  by (cases c) simp

lemma benign_append [simp]: "benign (a @ b) = (benign a \<and> benign b)"
  by (auto simp: benign_def)

lemma benign_encode_unit: "benign (encode_unit c)"
proof -
  let ?n = "of_char c :: nat"
  have n: "?n < 256" by (rule of_char_less)
  then have a: "192 + ?n div 64 < 256" and b: "128 + ?n mod 64 < 256"
    by arith+
  show ?thesis
  proof (cases "uri_unreserved c")
    case True
    then show ?thesis
      using unreserved_not_special [of c] by (simp add: encode_unit_def benign_def)
  next
    case False
    then show ?thesis
      using benign_pct_byte [OF n] benign_pct_byte [OF a] benign_pct_byte [OF b]
      by (simp add: encode_unit_def Let_def)
  qed
qed

lemma benign_encodeURIComponent [simp]: "benign (encodeURIComponent s)"
  by (induction s) (simp_all add: encodeURIComponent_def benign_encode_unit, simp add: benign_def)

lemma encode_unit_unreserved: "uri_unreserved c \<Longrightarrow> encode_unit c = [c]"
  by (simp add: encode_unit_def)

lemma encodeURIComponent_append:
  "encodeURIComponent (a @ b) = encodeURIComponent a @ encodeURIComponent b"
  by (simp add: encodeURIComponent_def)

lemma encodeURIComponent_unreserved:
  "(\<And>c. c \<in> set s \<Longrightarrow> uri_unreserved c) \<Longrightarrow> encodeURIComponent s = s"
  by (induction s) (simp_all add: encodeURIComponent_def encode_unit_unreserved)

lemma encodeURIComponent_toString [simp]: "encodeURIComponent (toString i) = toString i"
  by (rule encodeURIComponent_unreserved) (rule unreserved_toString)

lemma encode_post_ids: "encodeURIComponent ''post_ids[]'' = ''post_ids%5B%5D''"
  by code_simp

lemma encode_timings:
  "encodeURIComponent (''timings['' @ toString p @ '']'') = ''timings%5B'' @ toString p @ ''%5D''"
proof -
  have a: "encodeURIComponent ''timings['' = ''timings%5B''" by code_simp
  have b: "encodeURIComponent '']'' = ''%5D''" by code_simp
  show ?thesis
    by (simp only: encodeURIComponent_append a b encodeURIComponent_toString)
qed


lemma split_on_nonempty: "split_on c xs \<noteq> []"
  by (induction xs) (auto split: list.splits)

lemma split_on_Cons_other:
  "x \<noteq> c \<Longrightarrow> split_on c (x # xs) = (x # hd (split_on c xs)) # tl (split_on c xs)"
  using split_on_nonempty [of c xs] by (cases "split_on c xs") simp_all

lemma split_on_prefix:
  "c \<notin> set xs \<Longrightarrow> split_on c (xs @ ys) = (xs @ hd (split_on c ys)) # tl (split_on c ys)"
proof (induction xs)
  case Nil
  then show ?case using split_on_nonempty [of c ys] by simp
next
  case (Cons x xs)
  then have "x \<noteq> c" and "c \<notin> set xs" by auto
  with Cons.IH show ?case by (simp add: split_on_Cons_other)
qed

lemma split_on_none: "c \<notin> set xs \<Longrightarrow> split_on c xs = [xs]"
  using split_on_prefix [of c xs "[]"] by simp

lemma split_amp_benign:
  "benign xs \<Longrightarrow>
   split_on CHR ''&'' (xs @ ys) = (xs @ hd (split_on CHR ''&'' ys)) # tl (split_on CHR ''&'' ys)"
  by (rule split_on_prefix) (auto simp: benign_def)

lemma split_amp_benign_only: "benign xs \<Longrightarrow> split_on CHR ''&'' xs = [xs]"
  by (rule split_on_none) (auto simp: benign_def)

lemma dropWhile_q_benign:
  "benign xs \<Longrightarrow>
   dropWhile (\<lambda>x. x \<noteq> CHR ''?'') (xs @ ys) = dropWhile (\<lambda>x. x \<noteq> CHR ''?'') ys"
  by (rule dropWhile_append2) (simp add: benign_def)

lemma dropWhile_q_benign_only: "benign xs \<Longrightarrow> dropWhile (\<lambda>x. x \<noteq> CHR ''?'') xs = []"
  by (simp add: benign_def)

lemma takeWhile_eq_benign:
  "benign xs \<Longrightarrow>
   takeWhile (\<lambda>x. x \<noteq> CHR ''='') (xs @ ys) = xs @ takeWhile (\<lambda>x. x \<noteq> CHR ''='') ys"
  by (rule takeWhile_append2) (simp add: benign_def)

lemma dropWhile_eq_benign:
  "benign xs \<Longrightarrow>
   dropWhile (\<lambda>x. x \<noteq> CHR ''='') (xs @ ys) = dropWhile (\<lambda>x. x \<noteq> CHR ''='') ys"
  by (rule dropWhile_append2) (simp add: benign_def)

lemma takeWhile_eq_benign_only: "benign xs \<Longrightarrow> takeWhile (\<lambda>x. x \<noteq> CHR ''='') xs = xs"
  by (simp add: benign_def)

lemma dropWhile_eq_benign_only: "benign xs \<Longrightarrow> dropWhile (\<lambda>x. x \<noteq> CHR ''='') xs = []"
  by (simp add: benign_def)

lemmas benign_scan =
  split_amp_benign split_amp_benign_only dropWhile_q_benign dropWhile_q_benign_only
  takeWhile_eq_benign dropWhile_eq_benign takeWhile_eq_benign_only dropWhile_eq_benign_only

lemma createPost_fields_reply:
  "r \<noteq> 0 \<Longrightarrow> form_fields (createPost_data post t (Some r)) =
     [(''topic_id'', toString t), (''raw'', encodeURIComponent post),
      (''reply_to_post_number'', toString r)]"
  by (simp add: createPost_data_def form_fields_def key_value_def benign_scan)

lemma createPost_fields_plain:
  "responseTo = None \<or> responseTo = Some 0 \<Longrightarrow> form_fields (createPost_data post t responseTo) =
     [(''topic_id'', toString t), (''raw'', encodeURIComponent post)]"
  by (auto simp add: createPost_data_def form_fields_def key_value_def benign_scan)

lemma url_query_getTopic: "url_query (''/t/'' @ toString t @ ''.json?include_raw=1'') = [(''include_raw'', ''1'')]"
  by (simp add: url_query_def form_fields_def key_value_def benign_scan)

lemma url_query_t_json: "url_query (''/t/'' @ toString t @ ''.json'') = []"
  by (simp add: url_query_def form_fields_def key_value_def benign_scan)


lemma js_join_Cons:
  "js_join sep (x # xs) = x @ (if xs = [] then [] else sep @ js_join sep xs)"
  by (cases xs) simp_all

lemma getPosts_each_entry:
  "getPosts_each p (acc, sep) = (acc @ sep @ post_ids_entry p, ''&'')"
  by (simp add: getPosts_each_def post_ids_entry_def encode_post_ids)

lemma getPosts_fold:
  "fold getPosts_each ids (acc, sep) =
     (acc @ (if ids = [] then [] else sep @ js_join ''&'' (map post_ids_entry ids)),
      if ids = [] then sep else ''&'')"
proof (induction ids arbitrary: acc sep)
  case Nil
  show ?case by simp
next
  case (Cons p ps)
  show ?case
    by (simp add: getPosts_each_entry Cons.IH js_join_Cons)
qed

lemma getPosts_filter_join: "getPosts_filter ids = js_join ''&'' (map post_ids_entry ids)"
  by (simp add: getPosts_filter_def getPosts_fold)

lemma benign_free_amp: "benign x \<Longrightarrow> CHR ''&'' \<notin> set x"
  by (auto simp: benign_def)

lemma split_on_js_join:
  "xs \<noteq> [] \<Longrightarrow> (\<And>x. x \<in> set xs \<Longrightarrow> c \<notin> set x) \<Longrightarrow> split_on c (js_join [c] xs) = xs"
proof (induction xs)
  case Nil
  then show ?case by simp
next
  case (Cons x xs)
  show ?case
  proof (cases "xs = []")
    case True
    with Cons.prems show ?thesis by (simp add: split_on_none)
  next
    case False
    have "split_on c (js_join [c] xs) = xs"
      using False Cons.prems by (intro Cons.IH) auto
    moreover have "c \<notin> set x" using Cons.prems by simp
    ultimately show ?thesis
      using False by (simp add: js_join_Cons split_on_prefix)
  qed
qed

lemma amp_free_post_ids_entry: "CHR ''&'' \<notin> set (post_ids_entry p)"
  using benign_toString [of p] by (auto simp: post_ids_entry_def benign_def)

lemma amp_free_timings_entry: "CHR ''&'' \<notin> set (timings_entry p)"
  using benign_toString [of p] by (auto simp: timings_entry_def benign_def)

lemma split_getPosts_filter:
  "ids \<noteq> [] \<Longrightarrow> split_on CHR ''&'' (getPosts_filter ids) = map post_ids_entry ids"
  unfolding getPosts_filter_join
  by (rule split_on_js_join) (auto simp: amp_free_post_ids_entry)

lemma key_value_post_ids_entry: "key_value (post_ids_entry p) = (''post_ids%5B%5D'', toString p)"
  by (simp add: post_ids_entry_def key_value_def)

lemma form_fields_getPosts_filter:
  "form_fields (getPosts_filter ids) =
     (if ids = [] then [([], [])] else map (\<lambda>p. (''post_ids%5B%5D'', toString p)) ids)"
  by (simp add: form_fields_def split_getPosts_filter key_value_post_ids_entry o_def)
     (simp add: getPosts_filter_def key_value_def)

lemma timings_entry_encode:
  "encodeURIComponent (''timings['' @ toString p @ '']'') @ ''=1000'' = timings_entry p"
  unfolding encode_timings timings_entry_def by simp

lemma markTopicPostsRead_fold:
  "fold (\<lambda>postId parts.
           parts @ [encodeURIComponent (''timings['' @ toString postId @ '']'') @ ''=1000''])
     ids acc = acc @ map timings_entry ids"
  unfolding timings_entry_encode by (induction ids arbitrary: acc) simp_all

lemma markTopicPostsRead_parts_eq:
  "markTopicPostsRead_parts t ids =
     [''topic_id='' @ toString t, ''topic_time='' @ toString t] @ map timings_entry ids"
  unfolding markTopicPostsRead_parts_def markTopicPostsRead_fold by simp


lemma url_query_posts: "url_query ''/posts'' = []"
  by (simp add: url_query_def)

lemma sent_with_param:
  "values_of ''api_username'' (url_query (url r)) = [] \<Longrightarrow>
   params (config r) = [(''api_username'', v)] \<Longrightarrow>
   sent_api_usernames (configured e) r = [v]"
  by (simp add: sent_api_usernames_def configured_def merge_params_def values_of_def)

lemma sent_without_param:
  "values_of ''api_username'' (url_query (url r)) = [] \<Longrightarrow> params (config r) = [] \<Longrightarrow>
   sent_api_usernames (configured e) r = [DISCOURSE_SYSTEM_USERNAME e]"
  by (simp add: sent_api_usernames_def configured_def merge_params_def values_of_def)

lemma url_query_getPost: "url_query (''/posts/'' @ toString p @ ''.json?'') = [([], [])]"
  by (simp add: url_query_def form_fields_def key_value_def benign_scan)

lemma url_query_posts_json: "url_query (''/posts/'' @ toString p @ ''.json'') = []"
  by (simp add: url_query_def form_fields_def key_value_def benign_scan)

lemma url_query_remove: "url_query (''/t/'' @ toString t @ ''/remove-allowed-user'') = []"
  by (simp add: url_query_def form_fields_def key_value_def benign_scan)

lemma url_query_uploads: "url_query ''/uploads.json'' = []"
  by (simp add: url_query_def)

lemma url_query_timings: "url_query ''/topics/timings.json'' = []"
  by (simp add: url_query_def)

lemma form_fields_Cons_amp:
  "CHR ''&'' \<notin> set x \<Longrightarrow> form_fields (x @ CHR ''&'' # ys) = key_value x # form_fields ys"
  by (simp add: form_fields_def split_on_prefix)

lemma url_query_getPosts:
  "url_query (''/t/'' @ toString t @ ''/posts.json?include_raw=1&'' @ getPosts_filter ids) =
     (''include_raw'', ''1'') # form_fields (getPosts_filter ids)"
proof -
  have "url_query (''/t/'' @ toString t @ ''/posts.json?include_raw=1&'' @ getPosts_filter ids)
          = form_fields (''include_raw=1'' @ CHR ''&'' # getPosts_filter ids)"
    by (simp add: url_query_def benign_scan)
  also have "\<dots> = key_value ''include_raw=1'' # form_fields (getPosts_filter ids)"
    by (rule form_fields_Cons_amp) simp
  finally show ?thesis by (simp add: key_value_def)
qed

lemma query_getPosts:
  "values_of ''api_username'' (url_query (url (getPosts_req e u t ids))) = []"
  unfolding getPosts_req_def axios_get_def request.select_convs url_query_getPosts
  by (simp add: form_fields_getPosts_filter values_of_def)

lemma query_createPrivatePost:
  "values_of ''api_username'' (url_query (url (createPrivatePost_req e title post users owner))) = []"
  by (simp add: createPrivatePost_req_def axios_post_def url_query_def form_fields_def key_value_def
        benign_scan values_of_def)

lemma query_getTopic:
  "values_of ''api_username'' (url_query (url (getTopic_req e t u))) = []"
  by (simp add: getTopic_req_def axios_get_def url_query_def form_fields_def key_value_def
        benign_scan values_of_def)

lemma query_updateTopic:
  "values_of ''api_username'' (url_query (url (updateTopic_req e u t title))) = []"
  by (simp add: updateTopic_req_def axios_put_def url_query_def form_fields_def key_value_def
        benign_scan values_of_def)

lemma query_deleteTopic:
  "values_of ''api_username'' (url_query (url (deleteTopic_req e u t))) = []"
  by (simp add: deleteTopic_req_def axios_delete_def url_query_def form_fields_def key_value_def
        benign_scan values_of_def)

lemma query_createPost:
  "values_of ''api_username'' (url_query (url (createPost_req e u post t responseTo))) = []"
  by (simp add: createPost_req_def axios_post_def url_query_def form_fields_def key_value_def
        benign_scan values_of_def)

lemma query_getPost:
  "values_of ''api_username'' (url_query (url (getPost_req e u p))) = []"
  by (simp add: getPost_req_def axios_get_def url_query_def form_fields_def key_value_def
        benign_scan values_of_def)

lemma query_updatePost:
  "values_of ''api_username'' (url_query (url (updatePost_req e u p body))) = []"
  by (simp add: updatePost_req_def axios_put_def url_query_def form_fields_def key_value_def
        benign_scan values_of_def)

lemma query_deletePost:
  "values_of ''api_username'' (url_query (url (deletePost_req e u p))) = []"
  by (simp add: deletePost_req_def axios_delete_def url_query_def form_fields_def key_value_def
        benign_scan values_of_def)

lemma query_uploadImage:
  "values_of ''api_username'' (url_query (url (uploadImage_req e u file))) = []"
  by (simp add: uploadImage_req_def axios_post_def url_query_def form_fields_def key_value_def
        benign_scan values_of_def)

lemma query_markTopicPostsRead:
  "values_of ''api_username'' (url_query (url (markTopicPostsRead_req u t ids))) = []"
  by (simp add: markTopicPostsRead_req_def axios_post_def url_query_def form_fields_def key_value_def
        benign_scan values_of_def)


lemma sent_createPrivatePost:
  "sent_api_usernames (configured e) (createPrivatePost_req e title post users owner) =
     [case owner of
        Some w \<Rightarrow> if w \<noteq> [] \<and> \<not> isDiscourseAdmin e w then w else DISCOURSE_SYSTEM_USERNAME e
      | None \<Rightarrow> DISCOURSE_SYSTEM_USERNAME e]"
  by (rule sent_with_param [OF query_createPrivatePost]) (simp add: createPrivatePost_req_def axios_post_def)

lemma sent_getTopic:
  "sent_api_usernames (configured e) (getTopic_req e t u) =
     [if isDiscourseAdmin e u then DISCOURSE_SYSTEM_USERNAME e else u]"
  by (rule sent_with_param [OF query_getTopic]) (simp add: getTopic_req_def axios_get_def)

lemma sent_updateTopic:
  "sent_api_usernames (configured e) (updateTopic_req e u t title) =
     [if isDiscourseAdmin e u then DISCOURSE_SYSTEM_USERNAME e else u]"
  by (rule sent_with_param [OF query_updateTopic]) (simp add: updateTopic_req_def axios_put_def)

lemma sent_deleteTopic:
  "sent_api_usernames (configured e) (deleteTopic_req e u t) =
     [DISCOURSE_SYSTEM_USERNAME e]"
  by (rule sent_without_param [OF query_deleteTopic]) (simp add: deleteTopic_req_def axios_delete_def no_config_def)

lemma sent_createPost:
  "sent_api_usernames (configured e) (createPost_req e u post t responseTo) =
     [if isDiscourseAdmin e u then DISCOURSE_SYSTEM_USERNAME e else u]"
  by (rule sent_with_param [OF query_createPost]) (simp add: createPost_req_def axios_post_def)

lemma sent_getPost:
  "sent_api_usernames (configured e) (getPost_req e u p) =
     [if isDiscourseAdmin e u then DISCOURSE_SYSTEM_USERNAME e else u]"
  by (rule sent_with_param [OF query_getPost]) (simp add: getPost_req_def axios_get_def)

lemma sent_updatePost:
  "sent_api_usernames (configured e) (updatePost_req e u p body) =
     [if isDiscourseAdmin e u then DISCOURSE_SYSTEM_USERNAME e else u]"
  by (rule sent_with_param [OF query_updatePost]) (simp add: updatePost_req_def axios_put_def)

lemma sent_deletePost:
  "sent_api_usernames (configured e) (deletePost_req e u p) =
     [DISCOURSE_SYSTEM_USERNAME e]"
  by (rule sent_without_param [OF query_deletePost]) (simp add: deletePost_req_def axios_delete_def no_config_def)

lemma sent_uploadImage:
  "sent_api_usernames (configured e) (uploadImage_req e u file) =
     [if isDiscourseAdmin e u then DISCOURSE_SYSTEM_USERNAME e else u]"
  by (rule sent_with_param [OF query_uploadImage]) (simp add: uploadImage_req_def axios_post_def)

lemma sent_markTopicPostsRead:
  "sent_api_usernames (configured e) (markTopicPostsRead_req u t ids) =
     [u]"
  by (rule sent_with_param [OF query_markTopicPostsRead]) (simp add: markTopicPostsRead_req_def axios_post_def)


lemma sent_getPosts:
  "sent_api_usernames (configured e) (getPosts_req e u t ids) =
     [if isDiscourseAdmin e u then DISCOURSE_SYSTEM_USERNAME e else u]"
  by (rule sent_with_param [OF query_getPosts]) (simp add: getPosts_req_def axios_get_def)

lemma example_deps_simps:
  "isDiscourseAdmin (example_deps n) u = (u = ''admin1'')"
  "DISCOURSE_SYSTEM_USERNAME (example_deps n) = n"
  "getBoundary (example_deps n) = ''boundary''"
  by (simp_all add: example_deps_def example_admin_def DISCOURSE_SYSTEM_USERNAME_def)

subsection \<open>createUser\<close>

text \<open>
  C6: for every call of \<open>createUser\<close>, whatever the password argument is, the body posted
  to \<open>/users\<close> has \<open>active\<close> set to true, carries the handle under key \<open>1\<close> of
  \<open>user_fields\<close>, and has the numeric application user id as \<open>username\<close>.
\<close>

theorem createUser_body:
  "req_method (createUser_req name userId handle email password) = POST \<and>
   url (createUser_req name userId handle email password) = ''/users'' \<and>
   json_field ''active'' (data (createUser_req name userId handle email password))
     = Some (JBool True) \<and>
   json_field ''user_fields'' (data (createUser_req name userId handle email password))
     = Some (JObject [(''1'', JString handle)]) \<and>
   json_field ''username'' (data (createUser_req name userId handle email password))
     = Some (JNumber userId)"
  by (simp add: createUser_req_def axios_post_def json_field_def)

subsection \<open>createPrivatePost and its owner\<close>

text \<open>
  C10: when \<open>owner\<close> is absent or the empty string, \<open>createPrivatePost\<close> acts as the
  system username; the same holds for an administrator; the owner is sent unchanged
  exactly in the remaining case, a non-empty owner who is not an administrator.
\<close>

theorem createPrivatePost_owner:
  "(owner = None \<or> owner = Some [] \<longrightarrow>
      sent_api_usernames (configured e) (createPrivatePost_req e title post users owner)
        = [DISCOURSE_SYSTEM_USERNAME e]) \<and>
   (owner = Some w \<and> isDiscourseAdmin e w \<longrightarrow>
      sent_api_usernames (configured e) (createPrivatePost_req e title post users owner)
        = [DISCOURSE_SYSTEM_USERNAME e]) \<and>
   (owner = Some w \<and> w \<noteq> [] \<and> \<not> isDiscourseAdmin e w \<longrightarrow>
      sent_api_usernames (configured e) (createPrivatePost_req e title post users owner) = [w])"
  by (auto simp: sent_createPrivatePost)

theorem createPrivatePost_owner_witness:
  "isDiscourseAdmin (example_deps ''system'') ''admin1'' \<and>
   \<not> isDiscourseAdmin (example_deps ''system'') ''bob'' \<and>
   sent_api_usernames (configured (example_deps ''system''))
     (createPrivatePost_req (example_deps ''system'') ''t'' ''p'' ''u'' None) = [''system''] \<and>
   sent_api_usernames (configured (example_deps ''system''))
     (createPrivatePost_req (example_deps ''system'') ''t'' ''p'' ''u'' (Some [])) = [''system''] \<and>
   sent_api_usernames (configured (example_deps ''system''))
     (createPrivatePost_req (example_deps ''system'') ''t'' ''p'' ''u'' (Some ''admin1''))
       = [''system''] \<and>
   sent_api_usernames (configured (example_deps ''system''))
     (createPrivatePost_req (example_deps ''system'') ''t'' ''p'' ''u'' (Some ''bob'')) = [''bob'']"
  using createPrivatePost_owner [of None "example_deps ''system''" "''t''" "''p''" "''u''" "''x''"]
    createPrivatePost_owner [of "Some []" "example_deps ''system''" "''t''" "''p''" "''u''" "''x''"]
    createPrivatePost_owner
      [of "Some ''admin1''" "example_deps ''system''" "''t''" "''p''" "''u''" "''admin1''"]
    createPrivatePost_owner
      [of "Some ''bob''" "example_deps ''system''" "''t''" "''p''" "''u''" "''bob''"]
  by (simp add: example_deps_simps)

subsection \<open>The filter of getPosts\<close>

lemma toString_nonempty: "toString i \<noteq> []"
  by (simp add: toString_def) (subst nat_toString.simps, simp)

lemma last_toString_not_amp: "last (toString i) \<noteq> CHR ''&''"
  using last_in_set [OF toString_nonempty, of i] benign_toString [of i]
  by (auto simp: benign_def)

lemma js_join_nonempty: "xs \<noteq> [] \<Longrightarrow> last xs \<noteq> [] \<Longrightarrow> js_join sep xs \<noteq> []"
  by (induction sep xs rule: js_join.induct) (simp_all split: if_splits)

lemma last_js_join:
  "xs \<noteq> [] \<Longrightarrow> last xs \<noteq> [] \<Longrightarrow> last (js_join sep xs) = last (last xs)"
proof (induction sep xs rule: js_join.induct)
  case (3 sep x y ys)
  then have ne: "js_join sep (y # ys) \<noteq> []"
    by (intro js_join_nonempty) simp_all
  have "last (js_join sep (x # y # ys)) = last (js_join sep (y # ys))"
    using ne by simp
  with 3 show ?case by simp
qed simp_all

lemma last_getPosts_filter:
  "ids \<noteq> [] \<Longrightarrow> last (getPosts_filter ids) = last (toString (last ids))"
  by (simp add: getPosts_filter_join last_js_join last_map post_ids_entry_def toString_nonempty)

lemma hd_getPosts_filter: "ids \<noteq> [] \<Longrightarrow> hd (getPosts_filter ids) = CHR ''p''"
  by (cases ids) (simp_all add: getPosts_filter_join js_join_Cons post_ids_entry_def)

text \<open>
  C4: for a list of N post ids, \<open>getPosts\<close> puts into its URL a filter that is the
  entries \<open>post_ids%5B%5D=<id>\<close> (the key \<open>post_ids[]\<close> percent-encoded), one per id and
  in the order of the ids, joined by \<open>&\<close>.  Splitting a non-empty filter at \<open>&\<close> gives
  back exactly these N entries, and the filter neither starts nor ends with \<open>&\<close>; the
  filter of no ids is empty.
\<close>

theorem getPosts_filter_entries:
  "post_ids_entry p = encodeURIComponent ''post_ids[]'' @ ''='' @ toString p \<and>
   url (getPosts_req e username topicId postIds) =
     ''/t/'' @ toString topicId @ ''/posts.json?include_raw=1&'' @ getPosts_filter postIds \<and>
   getPosts_filter postIds = js_join ''&'' (map post_ids_entry postIds) \<and>
   (postIds = [] \<longrightarrow> getPosts_filter postIds = []) \<and>
   (postIds \<noteq> [] \<longrightarrow>
      split_on CHR ''&'' (getPosts_filter postIds) = map post_ids_entry postIds \<and>
      length (split_on CHR ''&'' (getPosts_filter postIds)) = length postIds \<and>
      hd (getPosts_filter postIds) \<noteq> CHR ''&'' \<and>
      last (getPosts_filter postIds) \<noteq> CHR ''&'')"
proof -
  have entry: "post_ids_entry p = encodeURIComponent ''post_ids[]'' @ ''='' @ toString p"
    by (simp add: post_ids_entry_def encode_post_ids)
  have u: "url (getPosts_req e username topicId postIds) =
     ''/t/'' @ toString topicId @ ''/posts.json?include_raw=1&'' @ getPosts_filter postIds"
    by (simp add: getPosts_req_def axios_get_def)
  have empty: "postIds = [] \<longrightarrow> getPosts_filter postIds = []"
    by (simp add: getPosts_filter_join)
  have split: "postIds \<noteq> [] \<longrightarrow>
      split_on CHR ''&'' (getPosts_filter postIds) = map post_ids_entry postIds \<and>
      length (split_on CHR ''&'' (getPosts_filter postIds)) = length postIds \<and>
      hd (getPosts_filter postIds) \<noteq> CHR ''&'' \<and>
      last (getPosts_filter postIds) \<noteq> CHR ''&''"
    by (simp add: split_getPosts_filter hd_getPosts_filter last_getPosts_filter
          last_toString_not_amp)
  from entry u getPosts_filter_join empty split show ?thesis
    by blast
qed

theorem getPosts_filter_entries_witness:
  "getPosts_filter [3, 14] = ''post_ids%5B%5D=3&post_ids%5B%5D=14'' \<and>
   split_on CHR ''&'' (getPosts_filter [3, 14]) = [''post_ids%5B%5D=3'', ''post_ids%5B%5D=14''] \<and>
   getPosts_filter [] = []"
proof -
  have a: "post_ids_entry 3 = ''post_ids%5B%5D=3''" "post_ids_entry 14 = ''post_ids%5B%5D=14''"
    by (code_simp+)
  show ?thesis
    using getPosts_filter_entries [of 3 "example_deps ''system''" "''bob''" 1 "[3, 14]"]
      getPosts_filter_entries [of 3 "example_deps ''system''" "''bob''" 1 "[]"]
    by (simp add: a)
qed


subsection \<open>The body of markTopicPostsRead\<close>

lemma key_value_timings_entry:
  "key_value (timings_entry p) = (''timings%5B'' @ toString p @ ''%5D'', ''1000'')"
  by (simp add: timings_entry_def key_value_def benign_scan)

lemma amp_free_topic_fields:
  "CHR ''&'' \<notin> set (''topic_id='' @ toString t)" "CHR ''&'' \<notin> set (''topic_time='' @ toString t)"
  using benign_free_amp [OF benign_toString, of t] by simp_all

lemma key_value_topic_fields:
  "key_value (''topic_id='' @ toString t) = (''topic_id'', toString t)"
  "key_value (''topic_time='' @ toString t) = (''topic_time'', toString t)"
  by (simp_all add: key_value_def)

lemma form_fields_markTopicPostsRead:
  "form_fields (js_join ''&'' (markTopicPostsRead_parts t ids)) =
     (''topic_id'', toString t) # (''topic_time'', toString t) #
     map (\<lambda>p. (''timings%5B'' @ toString p @ ''%5D'', ''1000'')) ids"
proof -
  let ?parts = "[''topic_id='' @ toString t, ''topic_time='' @ toString t] @ map timings_entry ids"
  have amp: "CHR ''&'' \<notin> set x" if "x \<in> set ?parts" for x
  proof -
    from that consider "x = ''topic_id='' @ toString t" | "x = ''topic_time='' @ toString t"
      | q where "x = timings_entry q"
      by auto
    then show ?thesis
      by cases (simp_all only: amp_free_topic_fields amp_free_timings_entry not_False_eq_True)
  qed
  have "split_on CHR ''&'' (js_join ''&'' ?parts) = ?parts"
    by (rule split_on_js_join) (simp, rule amp)
  then have "form_fields (js_join ''&'' ?parts) = map key_value ?parts"
    by (simp only: form_fields_def)
  also have "\<dots> = (''topic_id'', toString t) # (''topic_time'', toString t) #
     map (\<lambda>p. (''timings%5B'' @ toString p @ ''%5D'', ''1000'')) ids"
  proof -
    have "map key_value ?parts =
            [(''topic_id'', toString t), (''topic_time'', toString t)] @
            map (\<lambda>p. (''timings%5B'' @ toString p @ ''%5D'', ''1000'')) ids"
      by (simp only: map_append list.map key_value_topic_fields map_map o_def
            key_value_timings_entry)
    then show ?thesis by simp
  qed
  finally show ?thesis
    by (simp only: markTopicPostsRead_parts_eq)
qed

text \<open>
  C5: for a topic id T and a list of post ids, \<open>markTopicPostsRead\<close> posts to
  \<open>/topics/timings.json\<close> a text body whose fields are \<open>topic_id=T\<close>, \<open>topic_time=T\<close>
  and, for each post id p in order, the percent-encoded \<open>timings[p]\<close> with value
  \<open>1000\<close>.  The acting user is the given username, whatever the administrator check
  says of it.
\<close>

theorem markTopicPostsRead_request:
  "timings_entry p = encodeURIComponent (''timings['' @ toString p @ '']'') @ ''=1000'' \<and>
   req_method (markTopicPostsRead_req username topicId postIds) = POST \<and>
   url (markTopicPostsRead_req username topicId postIds) = ''/topics/timings.json'' \<and>
   data (markTopicPostsRead_req username topicId postIds) =
     TextBody (js_join ''&''
       ([''topic_id='' @ toString topicId, ''topic_time='' @ toString topicId]
        @ map timings_entry postIds)) \<and>
   form_fields (body_text (data (markTopicPostsRead_req username topicId postIds))) =
     (''topic_id'', toString topicId) # (''topic_time'', toString topicId) #
     map (\<lambda>q. (''timings%5B'' @ toString q @ ''%5D'', ''1000'')) postIds \<and>
   params (config (markTopicPostsRead_req username topicId postIds)) =
     [(''api_username'', username)] \<and>
   sent_api_usernames (configured e) (markTopicPostsRead_req username topicId postIds) =
     [username]"
proof -
  have d: "data (markTopicPostsRead_req username topicId postIds) =
     TextBody (js_join ''&'' (markTopicPostsRead_parts topicId postIds))"
    by (simp add: markTopicPostsRead_req_def axios_post_def)
  have f: "form_fields (body_text (data (markTopicPostsRead_req username topicId postIds))) =
     (''topic_id'', toString topicId) # (''topic_time'', toString topicId) #
     map (\<lambda>q. (''timings%5B'' @ toString q @ ''%5D'', ''1000'')) postIds"
    unfolding d by (simp add: body_text_def form_fields_markTopicPostsRead)
  have m: "req_method (markTopicPostsRead_req username topicId postIds) = POST"
      "url (markTopicPostsRead_req username topicId postIds) = ''/topics/timings.json''"
      "params (config (markTopicPostsRead_req username topicId postIds)) =
         [(''api_username'', username)]"
    by (simp_all add: markTopicPostsRead_req_def axios_post_def)
  show ?thesis
    using timings_entry_encode [of p, symmetric] d [unfolded markTopicPostsRead_parts_eq] f m
      sent_markTopicPostsRead [of e username topicId postIds]
    by (simp only: simp_thms)
qed

subsection \<open>The reply field of createPost\<close>

text \<open>
  C3, as the code has it: \<open>createPost\<close> guards the field with \<open>if (responseTo)\<close>.  For a
  \<open>responseTo\<close> other than 0 the body is \<open>topic_id\<close>, \<open>raw\<close> and
  \<open>reply_to_post_number = responseTo\<close>; when \<open>responseTo\<close> is left out, and also when it
  is the number 0, the body is \<open>topic_id\<close> and \<open>raw\<close> only.
\<close>

theorem createPost_reply_field:
  "(r \<noteq> 0 \<longrightarrow>
      form_fields (body_text (data (createPost_req e username post topicId (Some r)))) =
        [(''topic_id'', toString topicId), (''raw'', encodeURIComponent post),
         (''reply_to_post_number'', toString r)]) \<and>
   form_fields (body_text (data (createPost_req e username post topicId (Some 0)))) =
     [(''topic_id'', toString topicId), (''raw'', encodeURIComponent post)] \<and>
   form_fields (body_text (data (createPost_req e username post topicId None))) =
     [(''topic_id'', toString topicId), (''raw'', encodeURIComponent post)]"
  by (simp add: createPost_req_def axios_post_def body_text_def createPost_fields_reply
        createPost_fields_plain)

theorem createPost_reply_field_witness:
  "form_fields (body_text (data (createPost_req (example_deps ''system'') ''bob'' ''hi & bye'' 7 (Some 3)))) =
     [(''topic_id'', ''7''), (''raw'', ''hi%20%26%20bye''), (''reply_to_post_number'', ''3'')]"
proof -
  have "toString 7 = ''7''" "toString 3 = ''3''" "encodeURIComponent ''hi & bye'' = ''hi%20%26%20bye''"
    by (code_simp+)
  then show ?thesis
    using createPost_reply_field [of 3 "example_deps ''system''" "''bob''" "''hi & bye''" 7]
    by simp
qed

theorem createPost_reply_zero_counterexample:
  "map_of (form_fields (body_text (data
      (createPost_req (example_deps ''system'') ''bob'' ''hello'' 7 (Some 0)))))
     ''reply_to_post_number'' = None"
  by code_simp

subsection \<open>removeAccess\<close>


subsection \<open>Administrators act as the system user\<close>

text \<open>
  C1, as the code has it: for a username the administrator check accepts,
  \<open>createPrivatePost\<close>, \<open>getTopic\<close>, \<open>updateTopic\<close>, \<open>deleteTopic\<close>, \<open>createPost\<close>,
  \<open>getPost\<close>, \<open>getPosts\<close>, \<open>updatePost\<close>, \<open>deletePost\<close> and \<open>uploadImage\<close> send
  the system username as the one acting user of their request.  \<open>getUser\<close> makes no
  administrator check: it writes the given username into its URL as
  \<open>?api_username=<username>\<close> and passes no parameters of its own.
\<close>

theorem admin_acts_as_system:
  assumes "isDiscourseAdmin e u"
  shows
   "sent_api_usernames (configured e) (createPrivatePost_req e title post users (Some u))
      = [DISCOURSE_SYSTEM_USERNAME e] \<and>
    sent_api_usernames (configured e) (getTopic_req e topicId u) = [DISCOURSE_SYSTEM_USERNAME e] \<and>
    sent_api_usernames (configured e) (updateTopic_req e u topicId title)
      = [DISCOURSE_SYSTEM_USERNAME e] \<and>
    sent_api_usernames (configured e) (deleteTopic_req e u topicId)
      = [DISCOURSE_SYSTEM_USERNAME e] \<and>
    sent_api_usernames (configured e) (createPost_req e u post topicId responseTo)
      = [DISCOURSE_SYSTEM_USERNAME e] \<and>
    sent_api_usernames (configured e) (getPost_req e u postId) = [DISCOURSE_SYSTEM_USERNAME e] \<and>
    sent_api_usernames (configured e) (getPosts_req e u topicId postIds)
      = [DISCOURSE_SYSTEM_USERNAME e] \<and>
    sent_api_usernames (configured e) (updatePost_req e u postId post)
      = [DISCOURSE_SYSTEM_USERNAME e] \<and>
    sent_api_usernames (configured e) (deletePost_req e u postId)
      = [DISCOURSE_SYSTEM_USERNAME e] \<and>
    sent_api_usernames (configured e) (uploadImage_req e u file)
      = [DISCOURSE_SYSTEM_USERNAME e] \<and>
    url (getUser_req u) = ''/users/'' @ u @ ''.json?api_username='' @ u \<and>
    params (config (getUser_req u)) = []"
  using assms
  by (simp add: sent_createPrivatePost sent_getTopic sent_updateTopic sent_deleteTopic
        sent_createPost sent_getPost sent_getPosts sent_updatePost sent_deletePost
        sent_uploadImage getUser_req_def axios_get_def no_config_def)

theorem admin_acts_as_system_witness:
  "isDiscourseAdmin (example_deps ''system'') ''admin1'' \<and>
   sent_api_usernames (configured (example_deps ''system''))
     (getTopic_req (example_deps ''system'') 5 ''admin1'') = [''system''] \<and>
   sent_api_usernames (configured (example_deps ''system''))
     (createPost_req (example_deps ''system'') ''admin1'' ''hi'' 5 None) = [''system''] \<and>
   url (getUser_req ''admin1'') = ''/users/admin1.json?api_username=admin1''"
proof -
  have a: "isDiscourseAdmin (example_deps ''system'') ''admin1''"
    by (simp add: example_deps_simps)
  show ?thesis
    using a admin_acts_as_system
      [where e = "example_deps ''system''" and u = "''admin1''" and topicId = 5
         and post = "''hi''" and responseTo = None, OF a]
    by (simp add: example_deps_simps)
qed

theorem getUser_admin_counterexample:
  "isDiscourseAdmin (example_deps ''system'') ''admin1'' \<and>
   DISCOURSE_SYSTEM_USERNAME (example_deps ''system'') = ''system'' \<and>
   sent_api_usernames (configured (example_deps ''system'')) (getUser_req ''admin1'')
     = [''admin1'', ''system'']"
  by (simp add: example_deps_simps) code_simp

subsection \<open>Other users act as themselves\<close>

text \<open>
  The two delete operations hand their parameters to the client as a third argument,
  which \<open>delete(url, config)\<close> does not read: their request carries the client's default
  acting user, whoever the username is.
\<close>

lemma delete_requests_drop_username:
  "config (deleteTopic_req e u topicId) = no_config"
  "config (deletePost_req e u postId) = no_config"
  by (simp_all add: deleteTopic_req_def deletePost_req_def axios_delete_def)

lemma deleteTopic_example:
  "\<not> isDiscourseAdmin (example_deps ''system'') ''bob'' \<and>
   sent_api_usernames (configured (example_deps ''system''))
     (deleteTopic_req (example_deps ''system'') ''bob'' 5) = [''system'']"
  by (simp add: example_deps_simps sent_deleteTopic)

text \<open>
  C2, as the code has it: for a username the administrator check does not accept,
  \<open>getTopic\<close>, \<open>updateTopic\<close>, \<open>createPost\<close>, \<open>getPost\<close>, \<open>getPosts\<close>, \<open>updatePost\<close>
  and \<open>uploadImage\<close> send the given username unchanged as the one acting user of their
  request; \<open>createPrivatePost\<close> does so when the owner is not the empty string; \<open>getUser\<close>
  writes the username unchanged into its URL as \<open>?api_username=<username>\<close>.
\<close>

theorem user_acts_as_self:
  assumes "\<not> isDiscourseAdmin e u"
  shows
   "(u \<noteq> [] \<longrightarrow>
       sent_api_usernames (configured e) (createPrivatePost_req e title post users (Some u))
         = [u]) \<and>
    sent_api_usernames (configured e) (getTopic_req e topicId u) = [u] \<and>
    sent_api_usernames (configured e) (updateTopic_req e u topicId title) = [u] \<and>
    sent_api_usernames (configured e) (createPost_req e u post topicId responseTo) = [u] \<and>
    sent_api_usernames (configured e) (getPost_req e u postId) = [u] \<and>
    sent_api_usernames (configured e) (getPosts_req e u topicId postIds) = [u] \<and>
    sent_api_usernames (configured e) (updatePost_req e u postId post) = [u] \<and>
    sent_api_usernames (configured e) (uploadImage_req e u file) = [u] \<and>
    url (getUser_req u) = ''/users/'' @ u @ ''.json?api_username='' @ u"
  using assms
  by (simp add: sent_createPrivatePost sent_getTopic sent_updateTopic sent_createPost
        sent_getPost sent_getPosts sent_updatePost sent_uploadImage getUser_req_def
        axios_get_def)

theorem user_acts_as_self_witness:
  "\<not> isDiscourseAdmin (example_deps ''system'') ''bob'' \<and>
   sent_api_usernames (configured (example_deps ''system''))
     (createPrivatePost_req (example_deps ''system'') ''t'' ''hi'' ''u'' (Some ''bob''))
       = [''bob''] \<and>
   sent_api_usernames (configured (example_deps ''system''))
     (getPosts_req (example_deps ''system'') ''bob'' 5 [1, 2]) = [''bob''] \<and>
   url (getUser_req ''bob'') = ''/users/bob.json?api_username=bob''"
proof -
  have a: "\<not> isDiscourseAdmin (example_deps ''system'') ''bob''"
    by (simp add: example_deps_simps)
  show ?thesis
    using a user_acts_as_self
      [where e = "example_deps ''system''" and u = "''bob''" and topicId = 5
         and title = "''t''" and post = "''hi''" and users = "''u''" and postIds = "[1, 2]",
       OF a]
    by simp
qed

theorem createPrivatePost_empty_owner_counterexample:
  "\<not> isDiscourseAdmin (example_deps ''system'') [] \<and>
   sent_api_usernames (configured (example_deps ''system''))
     (createPrivatePost_req (example_deps ''system'') ''t'' ''hi'' ''u'' (Some []))
       = [''system'']"
  by (simp add: example_deps_simps sent_createPrivatePost)

subsection \<open>What a call does to the state\<close>

lemma write_log_fields [simp]:
  "axios (write_log lg x s) = axios s" "client (write_log lg x s) = client s"
  "log (write_log lg x s) = log s @ [(lg, x)]" "requests (write_log lg x s) = requests s"
  by (simp_all add: write_log_def)

lemma ref_is_export: "(ref :: object_ref) = Axios_export"
  by (cases ref) simp

lemma getClient_later: "client s = Some ref \<Longrightarrow> getClient e s = (axios s, s)"
  by (simp add: getClient_def)

lemma getClient_eq:
  "getClient e s = (client_of e s, s\<lparr>axios := client_of e s, client := Some Axios_export\<rparr>)"
proof (cases "client s")
  case None
  then show ?thesis by (simp add: client_of_def getClient_def Let_def)
next
  case (Some ref)
  then have "client s = Some Axios_export" by (simp add: ref_is_export [of ref])
  then have "s\<lparr>axios := axios s, client := Some Axios_export\<rparr> = s" by simp
  with Some show ?thesis by (simp add: client_of_def getClient_later)
qed

lemma client_of_set: "client s = Some ref \<Longrightarrow> client_of e s = axios s"
  by (simp add: client_of_def getClient_later)

lemma client_of_unset:
  "client s = None \<Longrightarrow>
   client_of e s = (axios s)
     \<lparr>baseURL := Some (discourseURL (conf e)),
      default_params :=
        [(''api_key'', discourseApiKey (conf e)), (''api_username'', DISCOURSE_SYSTEM_USERNAME e)],
      response_interceptors := response_interceptors (axios s) @ [logger e]\<rparr>"
  by (simp add: client_of_def getClient_def Let_def)

lemma client_of_initial: "client_of e initial_service = configured e"
  by (simp add: client_of_unset initial_service_def pristine_axios_def configured_def)

lemma run_interceptors_eq:
  "run_interceptors lgs r s =
     (r, s\<lparr>log := log s @ map (\<lambda>lg. (lg, interceptor_entry r)) lgs\<rparr>)"
proof (induction lgs arbitrary: s)
  case Nil
  show ?case by simp
next
  case (Cons lg lgs)
  have step: "response_interceptor lg r s = (r, s\<lparr>log := log s @ [(lg, interceptor_entry r)]\<rparr>)"
    by (cases r) (simp_all add: response_interceptor_def interceptor_entry_def write_log_def)
  show ?case
    by (simp add: step Cons.IH)
qed

lemma send_eq:
  "send e r s =
     (settle (upstream e (client_of e s) r),
      s\<lparr>axios := client_of e s, client := Some Axios_export,
        log := log s @ map (\<lambda>lg. (lg, interceptor_entry (settle (upstream e (client_of e s) r))))
                          (response_interceptors (client_of e s)),
        requests := requests s @ [r]\<rparr>)"
  by (simp add: send_def getClient_eq axios_request_def run_interceptors_eq)

lemma client_of_write_log [simp]: "client_of e (write_log lg x s) = client_of e s"
  by (cases "client s") (simp_all add: client_of_unset client_of_set)


lemmas operation_defs =
  createUser_def getUser_def changeTrustLevel_def grantAccess_def removeAccess_def getTopic_def
  updateTopic_def deleteTopic_def createPost_def updatePost_def deletePost_def uploadImage_def
  createPrivatePost_def getPost_def getPosts_def markTopicPostsRead_def

lemma perform_axios: "axios (snd (perform e c s)) = client_of e s"
  by (cases c) (simp_all add: operation_defs send_eq whole_def split: sum.splits)

lemma perform_client: "client (snd (perform e c s)) = Some Axios_export"
  by (cases c) (simp_all add: operation_defs send_eq whole_def split: sum.splits)

lemma perform_requests: "requests (snd (perform e c s)) = requests s @ [request_of e c]"
  by (cases c) (simp_all add: operation_defs send_eq whole_def split: sum.splits)

lemma perform_sends_once: "added_requests s (snd (perform e c s)) = [request_of e c]"
  by (simp add: added_requests_def perform_requests)

lemma perform_rejects:
  "settle (upstream e (client_of e s) (request_of e c)) = Inl f \<Longrightarrow> fst (perform e c s) = Inl f"
  by (cases c) (simp_all add: operation_defs send_eq whole_def)

lemma error_entries_append [simp]: "error_entries (xs @ ys) = error_entries xs @ error_entries ys"
  by (simp add: error_entries_def)

lemma error_entries_failed [simp]:
  "error_entries (map (\<lambda>lg. (lg, Log LError m)) lgs) = map (\<lambda>lg. (lg, Log LError m)) lgs"
  by (induction lgs) (simp_all add: error_entries_def)

lemma error_entries_simps [simp]:
  "error_entries [] = []"
  "error_entries ((lg, Log LDebug m) # xs) = error_entries xs"
  "error_entries ((lg, Log LError m) # xs) = (lg, Log LError m) # error_entries xs"
  "error_entries ((lg, LogFailure f) # xs) = (lg, LogFailure f) # error_entries xs"
  by (simp_all add: error_entries_def)

lemma added_log_append [simp]:
  "added_log s (s'\<lparr>log := log s @ xs\<rparr>) = xs"
  by (simp add: added_log_def)

lemma perform_error_entries:
  assumes "settle (upstream e (client_of e s) (request_of e c)) = Inl f"
  shows "error_entries (added_log s (snd (perform e c s))) =
           map (\<lambda>lg. (lg, Log LError ''Discourse call failed: ''))
             (response_interceptors (client_of e s)) @
           (if is_createPrivatePost c
            then [(logger e, Log LError ''Error creating topic''), (logger e, LogFailure f)]
            else [])"
  using assms
  by (cases c)
     (simp_all add: operation_defs send_eq whole_def is_createPrivatePost_def
        interceptor_entry_def added_log_def)


subsection \<open>The shared client\<close>

lemma client_of_perform: "client_of e (snd (perform e c s)) = client_of e s"
  using client_of_set [of "snd (perform e c s)" Axios_export e]
  by (simp add: perform_client perform_axios)

lemma client_of_perform_all: "client_of e (perform_all e cs s) = client_of e s"
  by (induction cs arbitrary: s) (simp_all add: perform_all_def client_of_perform)

lemma perform_all_state:
  "cs \<noteq> [] \<Longrightarrow>
   client (perform_all e cs s) = Some Axios_export \<and> axios (perform_all e cs s) = client_of e s"
proof (induction cs arbitrary: s)
  case Nil
  then show ?case by simp
next
  case (Cons c cs)
  show ?case
  proof (cases "cs = []")
    case True
    then show ?thesis by (simp add: perform_all_def perform_client perform_axios)
  next
    case False
    from Cons.IH [OF False, of "snd (perform e c s)"] show ?thesis
      by (simp add: perform_all_def client_of_perform)
  qed
qed

lemma perform_all_later:
  assumes "client s = Some ref"
  shows "client (perform_all e cs s) = Some ref \<and> axios (perform_all e cs s) = axios s"
proof (cases "cs = []")
  case True
  with assms show ?thesis by (simp add: perform_all_def)
next
  case False
  with assms perform_all_state [OF False, of e s] show ?thesis
    by (simp add: client_of_set ref_is_export [of ref])
qed

text \<open>
  C9: the service starts with its \<open>client\<close> unset; the first \<open>getClient\<close>, and so the
  first operation, points it at the axios export and configures that export with the base
  URL, the API key and the system username as default acting user.  From then on
  \<open>getClient\<close> returns that same export and leaves the state as it is, and no operation,
  nor any run of operations, changes the variable or the export.  A further instance that
  finds its own \<open>client\<close> unset writes the same base URL and default parameters again.
\<close>

theorem shared_client:
  "client initial_service = None \<and>
   getClient e initial_service =
     (configured e, initial_service\<lparr>axios := configured e, client := Some Axios_export\<rparr>) \<and>
   baseURL (configured e) = Some (discourseURL (conf e)) \<and>
   default_params (configured e) =
     [(''api_key'', discourseApiKey (conf e)), (''api_username'', DISCOURSE_SYSTEM_USERNAME e)] \<and>
   client (snd (perform e c initial_service)) = Some Axios_export \<and>
   axios (snd (perform e c initial_service)) = configured e \<and>
   (cs \<noteq> [] \<longrightarrow>
      client (perform_all e cs initial_service) = Some Axios_export \<and>
      axios (perform_all e cs initial_service) = configured e) \<and>
   (client s = Some ref \<longrightarrow>
      getClient e s = (axios s, s) \<and>
      client (snd (perform e c s)) = Some ref \<and>
      axios (snd (perform e c s)) = axios s \<and>
      client (perform_all e cs s) = Some ref \<and>
      axios (perform_all e cs s) = axios s) \<and>
   (client s = None \<longrightarrow>
      baseURL (fst (getClient e s)) = Some (discourseURL (conf e)) \<and>
      default_params (fst (getClient e s)) =
        [(''api_key'', discourseApiKey (conf e)),
         (''api_username'', DISCOURSE_SYSTEM_USERNAME e)])"
proof -
  have init: "client initial_service = None"
    by (simp add: initial_service_def)
  have first: "getClient e initial_service =
     (configured e, initial_service\<lparr>axios := configured e, client := Some Axios_export\<rparr>)"
    using getClient_eq [of e initial_service] by (simp add: client_of_initial)
  have conf: "baseURL (configured e) = Some (discourseURL (conf e))"
    "default_params (configured e) =
       [(''api_key'', discourseApiKey (conf e)), (''api_username'', DISCOURSE_SYSTEM_USERNAME e)]"
    by (simp_all add: configured_def)
  have op0: "client (snd (perform e c initial_service)) = Some Axios_export"
    "axios (snd (perform e c initial_service)) = configured e"
    by (simp_all add: perform_client perform_axios client_of_initial)
  have run0: "cs \<noteq> [] \<longrightarrow>
      client (perform_all e cs initial_service) = Some Axios_export \<and>
      axios (perform_all e cs initial_service) = configured e"
    using perform_all_state [of cs e initial_service] by (simp add: client_of_initial)
  have later: "client s = Some ref \<longrightarrow>
      getClient e s = (axios s, s) \<and>
      client (snd (perform e c s)) = Some ref \<and>
      axios (snd (perform e c s)) = axios s \<and>
      client (perform_all e cs s) = Some ref \<and>
      axios (perform_all e cs s) = axios s"
    using perform_all_later [of s ref e cs]
    by (simp add: getClient_later perform_client perform_axios client_of_set
          ref_is_export [of ref])
  have fresh: "client s = None \<longrightarrow>
      baseURL (fst (getClient e s)) = Some (discourseURL (conf e)) \<and>
      default_params (fst (getClient e s)) =
        [(''api_key'', discourseApiKey (conf e)),
         (''api_username'', DISCOURSE_SYSTEM_USERNAME e)]"
    using client_of_unset [of s e] by (simp add: client_of_def)
  from init first conf op0 run0 later fresh show ?thesis
    by (simp only: simp_thms)
qed

theorem shared_client_witness:
  "client (snd (perform (example_deps ''system'') (GetTopic 3 ''bob'') initial_service))
     = Some Axios_export \<and>
   axios (snd (perform (example_deps ''system'') (GetTopic 3 ''bob'') initial_service))
     = configured (example_deps ''system'') \<and>
   getClient (example_deps ''system'')
       (snd (perform (example_deps ''system'') (GetTopic 3 ''bob'') initial_service))
     = (configured (example_deps ''system''),
        snd (perform (example_deps ''system'') (GetTopic 3 ''bob'') initial_service)) \<and>
   axios (snd (perform (example_deps ''system'') (DeleteTopic ''bob'' 5)
       (snd (perform (example_deps ''system'') (GetTopic 3 ''bob'') initial_service))))
     = configured (example_deps ''system'') \<and>
   axios (perform_all (example_deps ''system'') [GetUser ''bob'', DeleteTopic ''bob'' 5]
       initial_service) = configured (example_deps ''system'') \<and>
   baseURL (fst (getClient (example_deps ''system'') (new_instance
       (snd (perform (example_deps ''system'') (GetTopic 3 ''bob'') initial_service)))))
     = Some ''http://forum.local''"
proof -
  let ?e = "example_deps ''system''"
  let ?s = "snd (perform ?e (GetTopic 3 ''bob'') initial_service)"
  have first: "client ?s = Some Axios_export" "axios ?s = configured ?e"
    using shared_client [of ?e "GetTopic 3 ''bob''" "[]" initial_service Axios_export]
    by simp_all
  have fresh: "client (new_instance ?s) = None"
    by (simp add: new_instance_def)
  have url: "discourseURL (conf ?e) = ''http://forum.local''"
    by (simp add: example_deps_def)
  show ?thesis
    using first fresh url
      shared_client [of ?e "DeleteTopic ''bob'' 5" "[GetUser ''bob'', DeleteTopic ''bob'' 5]" ?s
        Axios_export]
      shared_client [of ?e "DeleteTopic ''bob'' 5" "[]" "new_instance ?s" Axios_export]
    by simp
qed

subsection \<open>Failing calls\<close>

text \<open>
  C7, as the code has it: when the forum does not answer the request of a call with a
  status from 200 to 299, the call is rejected with that failure and its request has gone
  out exactly once: nothing is swallowed and nothing is retried.  The error-level log
  entries of the call are one entry \<open>Discourse call failed\<close> for each interceptor pair
  registered on the shared client (exactly one pair, this service's, in a process where
  this instance alone has set up the client), followed by the entries of the operation
  itself: none, except for \<open>createPrivatePost\<close>, which adds two, the message
  \<open>Error creating topic\<close> and the failure itself.
\<close>

theorem failure_is_rejected:
  assumes "settle (upstream e (client_of e s) (request_of e c)) = Inl f"
  shows "fst (perform e c s) = Inl f \<and>
         added_requests s (snd (perform e c s)) = [request_of e c] \<and>
         error_entries (added_log s (snd (perform e c s))) =
           map (\<lambda>lg. (lg, Log LError ''Discourse call failed: ''))
             (response_interceptors (client_of e s)) @
           (if is_createPrivatePost c
            then [(logger e, Log LError ''Error creating topic''), (logger e, LogFailure f)]
            else []) \<and>
         (s = perform_all e cs initial_service \<longrightarrow>
            response_interceptors (client_of e s) = [logger e])"
proof -
  have "response_interceptors (client_of e (perform_all e cs initial_service)) = [logger e]"
    by (simp add: client_of_perform_all client_of_initial configured_def)
  with perform_rejects [OF assms] perform_sends_once [of s e c] perform_error_entries [OF assms]
  show ?thesis by blast
qed

theorem failure_is_rejected_witness:
  "settle (upstream (example_deps ''system'') (client_of (example_deps ''system'') initial_service)
     (request_of (example_deps ''system'') (CreatePost ''bob'' ''hi'' 7 None)))
     = Inl (BadStatus 500 ''error'') \<and>
   fst (perform (example_deps ''system'') (CreatePost ''bob'' ''hi'' 7 None) initial_service)
     = Inl (BadStatus 500 ''error'') \<and>
   added_requests initial_service
       (snd (perform (example_deps ''system'') (CreatePost ''bob'' ''hi'' 7 None) initial_service))
     = [createPost_req (example_deps ''system'') ''bob'' ''hi'' 7 None] \<and>
   error_entries (added_log initial_service
       (snd (perform (example_deps ''system'') (CreatePost ''bob'' ''hi'' 7 None) initial_service)))
     = [(1, Log LError ''Discourse call failed: '')] \<and>
   fst (perform (example_deps ''system'') (CreatePrivatePost ''t'' ''p'' ''u'' None)
          initial_service)
     = Inl (BadStatus 500 ''error'')"
proof -
  let ?e = "example_deps ''system''"
  have b: "settle (upstream ?e (client_of ?e initial_service)
             (request_of ?e (CreatePost ''bob'' ''hi'' 7 None))) = Inl (BadStatus 500 ''error'')"
    by (simp add: settle_def example_deps_def example_upstream_def createPost_req_def
          axios_post_def)
  have c: "settle (upstream ?e (client_of ?e initial_service)
             (request_of ?e (CreatePrivatePost ''t'' ''p'' ''u'' None)))
             = Inl (BadStatus 500 ''error'')"
    by (simp add: settle_def example_deps_def example_upstream_def createPrivatePost_req_def
          axios_post_def)
  have l: "logger ?e = 1"
    by (simp add: example_deps_def)
  have i: "initial_service = perform_all ?e [] initial_service"
    by (simp add: perform_all_def)
  show ?thesis
    using failure_is_rejected [OF b, of "[]"] failure_is_rejected [OF c, of "[]"] b i l
    by (simp add: is_createPrivatePost_def)
qed

theorem createPrivatePost_failure_counterexample:
  "fst (perform (example_deps ''system'') (CreatePrivatePost ''t'' ''p'' ''u'' (Some ''bob''))
          initial_service) = Inl (BadStatus 500 ''error'') \<and>
   error_entries (added_log initial_service
       (snd (perform (example_deps ''system'') (CreatePrivatePost ''t'' ''p'' ''u'' (Some ''bob''))
          initial_service)))
     = [(1, Log LError ''Discourse call failed: ''), (1, Log LError ''Error creating topic''),
        (1, LogFailure (BadStatus 500 ''error''))]"
  by code_simp

text \<open>
  A second instance of the service in the same process registers a second interceptor pair
  on the shared export, and a failing call then logs the interceptor entry twice.
\<close>

lemma second_instance_example:
  "error_entries (added_log
       (new_instance (snd (perform (example_deps ''system'') (GetTopic 3 ''bob'') initial_service)))
       (snd (perform (example_deps ''system'') (CreatePost ''bob'' ''hi'' 7 None)
          (new_instance
             (snd (perform (example_deps ''system'') (GetTopic 3 ''bob'') initial_service))))))
     = [(1, Log LError ''Discourse call failed: ''), (1, Log LError ''Discourse call failed: '')]"
  by code_simp

end
